theory Spec2Isabelle
  imports Main "HOL-Library.Finite_Map"
begin

section \<open>JSON values and the Local Store\<close>

text \<open>
  Values held in the Local Store (Onyx) are JSON values.  A JavaScript object is a finite
  map from property names to values; a TypeScript \<open>number\<close> used as an identifier is an
  integer.
\<close>

datatype json =
    JNull
  | JBool bool
  | JNum int
  | JStr string
  | JArr "json list"
  | JObj "(string, json) fmap"

fun entries :: "json \<Rightarrow> (string, json) fmap" where
  "entries (JObj m) = m"
| "entries _ = fmempty"

text \<open>Reading a property; a missing property reads as \<open>undefined\<close>, modelled by \<open>JNull\<close>.\<close>

definition getField :: "json \<Rightarrow> string \<Rightarrow> json" where
  "getField v k = (case fmlookup (entries v) k of None \<Rightarrow> JNull | Some x \<Rightarrow> x)"

text \<open>
  Modelled from the spec: the merge of the Local Store (\<open>Onyx.merge\<close>, package
  react-native-onyx) is not in src.  Section 4.1: it deep-merges the partial value into the
  existing value; mapping keys are unioned, arrays are replaced wholesale, scalars are
  overwritten.  The recursion is on the partial value, which is the first argument here.
\<close>

primrec merge_patch :: "json \<Rightarrow> json \<Rightarrow> json" where
  "merge_patch JNull = (\<lambda>old. JNull)"
| "merge_patch (JBool b) = (\<lambda>old. JBool b)"
| "merge_patch (JNum n) = (\<lambda>old. JNum n)"
| "merge_patch (JStr s) = (\<lambda>old. JStr s)"
| "merge_patch (JArr xs) = (\<lambda>old. JArr xs)"
| "merge_patch (JObj p) = (\<lambda>old. JObj (entries old ++\<^sub>f
      fmmap_keys (\<lambda>k f. f (getField old k)) (fmmap merge_patch p)))"

definition merge :: "json \<Rightarrow> json \<Rightarrow> json" where
  "merge old partialValue = merge_patch partialValue old"

datatype onyxMethod = MERGE | SET

record 'k patch =
  onyxMethod :: onyxMethod
  key :: 'k
  pvalue :: json

type_synonym 'k store = "'k \<Rightarrow> json option"

text \<open>
  Modelled from the spec: \<open>merge(key, partialValue)\<close> and \<open>set(key, value)\<close> of section 4.1.
  A key that was never written reads as \<open>undefined\<close>.
\<close>

definition onyx_merge :: "'k \<Rightarrow> json \<Rightarrow> 'k store \<Rightarrow> 'k store" where
  "onyx_merge k v s = s(k \<mapsto> merge (case s k of None \<Rightarrow> JNull | Some old \<Rightarrow> old) v)"

definition onyx_set :: "'k \<Rightarrow> json \<Rightarrow> 'k store \<Rightarrow> 'k store" where
  "onyx_set k v s = s(k \<mapsto> v)"

definition apply_patch :: "'k patch \<Rightarrow> 'k store \<Rightarrow> 'k store" where
  "apply_patch p s =
     (case onyxMethod p of
        MERGE \<Rightarrow> onyx_merge (key p) (pvalue p) s
      | SET \<Rightarrow> onyx_set (key p) (pvalue p) s)"

text \<open>The patches of one batch apply in call order.\<close>

definition apply_patches :: "'k patch list \<Rightarrow> 'k store \<Rightarrow> 'k store" where
  "apply_patches ps s = fold apply_patch ps s"


section \<open>The Mutation Dispatcher and the Command Queue\<close>

record 'k onyxData =
  optimisticData :: "'k patch list"
  successData :: "'k patch list"
  failureData :: "'k patch list"

record 'k request =
  command :: string
  parameters :: "(string \<times> json) list"
  onSuccess :: "'k patch list"
  onFailure :: "'k patch list"

datatype phase = Optimistic | Success | Failure

datatype event =
    Applied phase string
  | Enqueued string "(string \<times> json) list"
  | SideEffectRequest string "(string \<times> json) list"

record 'k app =
  store :: "'k store"
  queue :: "'k request list"
  trace :: "event list"

definition init :: "'k store \<Rightarrow> 'k app" where
  "init s = \<lparr>store = s, queue = [], trace = []\<rparr>"

text \<open>
  Modelled from the spec: \<open>API.write\<close> (\<open>@libs/API\<close>) is not in src.  Section 4.2: it
  applies every patch of \<open>optimisticData\<close> to the Local Store synchronously, before any
  network activity, then enqueues \<open>(name, params)\<close> on the Command Queue.
\<close>

definition API_write :: "string \<Rightarrow> (string \<times> json) list \<Rightarrow> 'k onyxData \<Rightarrow> 'k app \<Rightarrow> 'k app" where
  "API_write name params data st =
     st\<lparr>store := apply_patches (optimisticData data) (store st),
        queue := queue st @ [\<lparr>command = name, parameters = params,
                              onSuccess = successData data, onFailure = failureData data\<rparr>],
        trace := trace st @ [Applied Optimistic name, Enqueued name params]\<rparr>"

text \<open>
  Modelled from the spec: the Command Queue is an external network layer.  Section 4.2 and
  section 6: it sequences the dispatched mutations and answers each with an eventual
  success or failure signal; on success \<open>successData\<close> is applied, on a remote failure, a
  wrong status code or an unrecoverable local error \<open>failureData\<close> is applied.
\<close>

datatype signal = RemoteSuccess | RemoteFailure

fun outcome :: "signal \<Rightarrow> phase" where
  "outcome RemoteSuccess = Success"
| "outcome RemoteFailure = Failure"

definition resolve :: "signal \<Rightarrow> 'k app \<Rightarrow> 'k app" where
  "resolve sig st =
     (case queue st of
        [] \<Rightarrow> st
      | r # rs \<Rightarrow>
          st\<lparr>store := apply_patches
                         (case sig of RemoteSuccess \<Rightarrow> onSuccess r | RemoteFailure \<Rightarrow> onFailure r)
                         (store st),
             queue := rs,
             trace := trace st @ [Applied (outcome sig) (command r)]\<rparr>)"

definition resolve_all :: "signal list \<Rightarrow> 'k app \<Rightarrow> 'k app" where
  "resolve_all sigs st = fold resolve sigs st"

text \<open>How often a phase of the mutation \<open>name\<close> was applied in a trace.\<close>

definition applied :: "phase \<Rightarrow> string \<Rightarrow> event list \<Rightarrow> nat" where
  "applied ph name evs = length (filter (\<lambda>e. e = Applied ph name) evs)"


section \<open>Card actions (src/libs/actions/Card.ts)\<close>

text \<open>
  The keys of \<open>ONYXKEYS\<close> that Card.ts names.  \<open>ONYXKEYS\<close> itself is not in src; its
  constants are taken as an enumeration, so that keys with different names are different
  keys.
\<close>

datatype onyx_key =
    CARD_LIST
  | FORMS_REPORT_VIRTUAL_CARD_FRAUD
  | FORMS_REPORT_PHYSICAL_CARD_FORM

text \<open>A computed property name \<open>[cardID]\<close> is the decimal string of the number.\<close>

definition digit :: "nat \<Rightarrow> char" where
  "digit d = ''0123456789'' ! d"

fun string_of_nat :: "nat \<Rightarrow> string" where
  "string_of_nat n =
     (if 10 \<le> n then string_of_nat (n div 10) @ [digit (n mod 10)] else [digit n])"

definition string_of_int :: "int \<Rightarrow> string" where
  "string_of_int i = (if i < 0 then CHR ''-'' # string_of_nat (nat (- i)) else string_of_nat (nat i))"

definition obj :: "(string \<times> json) list \<Rightarrow> json" where
  "obj kvs = JObj (fmap_of_list kvs)"

text \<open>
  Each action calls \<open>API.write\<close> with its parameters and an object literal of three patch
  lists; the literal is named here so that theorems can speak of it.
\<close>

definition reportVirtualExpensifyCardFraud_data :: "int \<Rightarrow> onyx_key onyxData" where
  "reportVirtualExpensifyCardFraud_data cardID =
     \<lparr>optimisticData =
        [\<lparr>onyxMethod = MERGE, key = FORMS_REPORT_VIRTUAL_CARD_FRAUD,
          pvalue = obj [(''isLoading'', JBool True)]\<rparr>],
      successData =
        [\<lparr>onyxMethod = MERGE, key = FORMS_REPORT_VIRTUAL_CARD_FRAUD,
          pvalue = obj [(''isLoading'', JBool False)]\<rparr>],
      failureData =
        [\<lparr>onyxMethod = MERGE, key = FORMS_REPORT_VIRTUAL_CARD_FRAUD,
          pvalue = obj [(''isLoading'', JBool False)]\<rparr>]\<rparr>"

definition reportVirtualExpensifyCardFraud :: "int \<Rightarrow> onyx_key app \<Rightarrow> onyx_key app" where
  "reportVirtualExpensifyCardFraud cardID =
     API_write ''ReportVirtualExpensifyCardFraud'' [(''cardID'', JNum cardID)]
       (reportVirtualExpensifyCardFraud_data cardID)"

definition requestReplacementExpensifyCard_data :: "int \<Rightarrow> string \<Rightarrow> onyx_key onyxData" where
  "requestReplacementExpensifyCard_data cardId reason =
     \<lparr>optimisticData =
        [\<lparr>onyxMethod = MERGE, key = FORMS_REPORT_PHYSICAL_CARD_FORM,
          pvalue = obj [(''isLoading'', JBool True), (''errors'', JNull)]\<rparr>],
      successData =
        [\<lparr>onyxMethod = MERGE, key = FORMS_REPORT_PHYSICAL_CARD_FORM,
          pvalue = obj [(''isLoading'', JBool False)]\<rparr>],
      failureData =
        [\<lparr>onyxMethod = MERGE, key = FORMS_REPORT_PHYSICAL_CARD_FORM,
          pvalue = obj [(''isLoading'', JBool False)]\<rparr>]\<rparr>"

definition requestReplacementExpensifyCard :: "int \<Rightarrow> string \<Rightarrow> onyx_key app \<Rightarrow> onyx_key app" where
  "requestReplacementExpensifyCard cardId reason =
     API_write ''RequestReplacementExpensifyCard'' [(''cardId'', JNum cardId), (''reason'', JStr reason)]
       (requestReplacementExpensifyCard_data cardId reason)"

definition activatePhysicalExpensifyCard_data :: "int \<Rightarrow> onyx_key onyxData" where
  "activatePhysicalExpensifyCard_data cardID =
     \<lparr>optimisticData =
        [\<lparr>onyxMethod = MERGE, key = CARD_LIST,
          pvalue = obj [(string_of_int cardID,
                         obj [(''errors'', JNull), (''isLoading'', JBool True)])]\<rparr>],
      successData =
        [\<lparr>onyxMethod = MERGE, key = CARD_LIST,
          pvalue = obj [(string_of_int cardID, obj [(''isLoading'', JBool False)])]\<rparr>],
      failureData =
        [\<lparr>onyxMethod = MERGE, key = CARD_LIST,
          pvalue = obj [(string_of_int cardID, obj [(''isLoading'', JBool False)])]\<rparr>]\<rparr>"

definition activatePhysicalExpensifyCard :: "string \<Rightarrow> int \<Rightarrow> onyx_key app \<Rightarrow> onyx_key app" where
  "activatePhysicalExpensifyCard cardLastFourDigits cardID =
     API_write ''ActivatePhysicalExpensifyCard''
       [(''cardLastFourDigits'', JStr cardLastFourDigits), (''cardID'', JNum cardID)]
       (activatePhysicalExpensifyCard_data cardID)"

definition clearCardListErrors :: "int \<Rightarrow> onyx_key app \<Rightarrow> onyx_key app" where
  "clearCardListErrors cardID st =
     st\<lparr>store := onyx_merge CARD_LIST
          (obj [(string_of_int cardID, obj [(''errors'', JNull), (''isLoading'', JBool False)])])
          (store st)\<rparr>"

text \<open>
  \<open>revealVirtualCardDetails\<close>.  \<open>CONST.JSON_CODE.SUCCESS\<close> and \<open>Localize.translateLocal\<close>
  are not in src and are parameters.  The promise of \<open>API.makeRequestWithSideEffects\<close>
  either fulfils with a response (possibly \<open>undefined\<close>), or rejects; \<open>response?.jsonCode\<close>
  of an undefined response, or of a response without the field, is \<open>undefined\<close>.  The
  function calls no method of the Local Store and passes no patch list with the request;
  the request is recorded in the trace.
\<close>

record card_env =
  JSON_CODE_SUCCESS :: json
  translateLocal :: "string \<Rightarrow> string"

record response =
  jsonCode :: "json option"

datatype 'r settled = Fulfilled "'r option" | Failed

datatype 'r promise = Resolved 'r | Rejected string

definition revealVirtualCardDetails ::
  "card_env \<Rightarrow> int \<Rightarrow> 'a response_scheme settled \<Rightarrow> 'k app \<Rightarrow> 'a response_scheme promise \<times> 'k app" where
  "revealVirtualCardDetails env cardID answer st =
     (let st' = st\<lparr>trace := trace st @
                   [SideEffectRequest ''RevealExpensifyCardDetails'' [(''cardID'', JNum cardID)]]\<rparr>;
          failure = Rejected (translateLocal env ''cardPage.cardDetailsLoadingFailure'')
      in case answer of
           Fulfilled None \<Rightarrow> (failure, st')
         | Fulfilled (Some r) \<Rightarrow>
             (if jsonCode r \<noteq> Some (JSON_CODE_SUCCESS env) then (failure, st')
              else (Resolved r, st'))
         | Failed \<Rightarrow> (failure, st'))"


section \<open>Editing a message (src/pages/home/report/ReportActionItemMessageEdit.js)\<close>

subsection \<open>Strings\<close>

text \<open>
  \<open>String.prototype.trim\<close> removes leading and trailing white space and line
  terminators.  Strings are lists of 8-bit characters here, so the white space is that of
  ECMAScript below code 256: TAB, LF, VT, FF, CR, SP and NBSP.
\<close>

definition is_space :: "char \<Rightarrow> bool" where
  "is_space c = (of_char c \<in> {9, 10, 11, 12, 13, 32, 160 :: nat})"

definition trim :: "string \<Rightarrow> string" where
  "trim s = rev (dropWhile is_space (rev (dropWhile is_space s)))"

text \<open>\<open>s.slice(i)\<close> with one argument: a negative index counts from the end.\<close>

definition slice :: "string \<Rightarrow> int \<Rightarrow> string" where
  "slice s i = drop (nat (if i < 0 then max (int (length s) + i) 0 else i)) s"

subsection \<open>Props, helpers and state\<close>

record props =
  reportID :: string
  reportActionID :: string
  messageHtml :: string
  index :: nat
  parentReportActionID :: "string option"
  parentReportID :: "string option"
  preferredSkinTone :: int

text \<open>
  \<open>messageHtml\<close> is \<open>props.action.message[0].html\<close>, \<open>reportActionID\<close> is
  \<open>props.action.reportActionID\<close>, and the two parent fields are those of \<open>props.report\<close>
  (undefined for the default \<open>{}\<close>).

  Helpers of other modules that are not in src are parameters:
  \<open>EmojiUtils.replaceEmojis\<close> (its \<open>text\<close> and \<open>emojis\<close>), underscore's \<open>_.escape\<close>,
  \<open>ReportUtils.getCommentLength\<close> and \<open>CONST.MAX_COMMENT_LENGTH\<close>.
\<close>

record 'e edit_env =
  replaceEmojis :: "string \<Rightarrow> int \<Rightarrow> string \<times> 'e list"
  escape :: "string \<Rightarrow> string"
  getCommentLength :: "string \<Rightarrow> nat"
  MAX_COMMENT_LENGTH :: nat

text \<open>
  Calls out of the component, in the order they are made.  \<open>UpdateFrequentlyUsedEmojis\<close>
  carries the emojis found, which the component passes through
  \<open>EmojiUtils.getFrequentlyUsedEmojis\<close> (not in src) to \<open>User.updateFrequentlyUsedEmojis\<close>.
\<close>

datatype 'e effect =
    UpdateFrequentlyUsedEmojis "'e list"
  | SaveReportActionDraft string string string
  | SetShouldShowComposeInput bool
  | ComposeFocus
  | AddKeyboardDidHideListener
  | ShowDeleteModal "string option" string
  | EditReportComment "string option" string string

text \<open>
  The state the handlers read and write: the component's \<open>draft\<close> and \<open>selection\<close>, the
  clock (milliseconds), the call waiting in the debounced function (its argument and the
  time it is due), the drafts held in the Local Store under their owner key
  \<open>(reportID, reportActionID)\<close>, the comments of the permanent entity store, the
  visibility and focus of the shared composer, and the calls made so far.
\<close>

record 'e edit_state =
  draft :: string
  selection :: "int \<times> int"
  clock :: nat
  timer :: "(string \<times> nat) option"
  drafts :: "string \<times> string \<Rightarrow> string option"
  comments :: "string option \<times> string \<Rightarrow> string option"
  shouldShowComposeInput :: bool
  composerFocused :: bool
  effects :: "'e effect list"

definition emit :: "'e effect \<Rightarrow> 'e edit_state \<Rightarrow> 'e edit_state" where
  "emit e st = st\<lparr>effects := effects st @ [e]\<rparr>"

subsection \<open>Actions of other modules\<close>

text \<open>
  Modelled from the spec: \<open>Report.saveReportActionDraft\<close> is not in src.  Section 4.3: the
  draft is persisted to the Local Store under its owner key.
\<close>

definition saveReportActionDraft :: "string \<Rightarrow> string \<Rightarrow> string \<Rightarrow> 'e edit_state \<Rightarrow> 'e edit_state" where
  "saveReportActionDraft rid aid text st =
     emit (SaveReportActionDraft rid aid text) (st\<lparr>drafts := (drafts st)((rid, aid) \<mapsto> text)\<rparr>)"

text \<open>
  Modelled from the spec: \<open>Report.editReportComment\<close> is not in src.  Section 6: the
  committed content of a draft crosses into the permanent entity store through a named
  mutation; its optimistic patch sets the comment.
\<close>

definition editReportComment :: "string option \<Rightarrow> string \<Rightarrow> string \<Rightarrow> 'e edit_state \<Rightarrow> 'e edit_state" where
  "editReportComment rid aid text st =
     emit (EditReportComment rid aid text) (st\<lparr>comments := (comments st)((rid, aid) \<mapsto> text)\<rparr>)"

text \<open>
  Modelled from the spec: \<open>ComposerActions.setShouldShowComposeInput\<close>,
  \<open>ReportActionComposeFocusManager.focus\<close> and \<open>ReportActionContextMenu.showDeleteModal\<close>
  are not in src.  Section 4.3: the first two restore the visibility and the focus of the
  shared composer; the third opens the delete-confirmation flow, which calls back only
  when the user confirms or cancels.
\<close>

definition setShouldShowComposeInput :: "bool \<Rightarrow> 'e edit_state \<Rightarrow> 'e edit_state" where
  "setShouldShowComposeInput b st = emit (SetShouldShowComposeInput b) (st\<lparr>shouldShowComposeInput := b\<rparr>)"

definition composeFocus :: "'e edit_state \<Rightarrow> 'e edit_state" where
  "composeFocus st = emit ComposeFocus (st\<lparr>composerFocused := True\<rparr>)"

definition showDeleteModal :: "string option \<Rightarrow> string \<Rightarrow> 'e edit_state \<Rightarrow> 'e edit_state" where
  "showDeleteModal rid aid st = emit (ShowDeleteModal rid aid) st"

subsection \<open>The debounced save\<close>

text \<open>
  Modelled from the spec: \<open>_.debounce(f, 1000)\<close> is underscore's and not in src.
  Section 4.3 and section 5: a call replaces the call that is waiting and is due 1000 ms
  later; \<open>cancel\<close> drops the waiting call, which is then never delivered; when time reaches
  the due time the waiting call runs once.  The function debounced is
  \<open>Report.saveReportActionDraft(props.reportID, props.action.reportActionID, newDraft)\<close>.
\<close>

definition debouncedSaveDraft :: "string \<Rightarrow> 'e edit_state \<Rightarrow> 'e edit_state" where
  "debouncedSaveDraft newDraft st = st\<lparr>timer := Some (newDraft, clock st + 1000)\<rparr>"

definition debouncedSaveDraft_cancel :: "'e edit_state \<Rightarrow> 'e edit_state" where
  "debouncedSaveDraft_cancel st = st\<lparr>timer := None\<rparr>"

text \<open>Time passes until \<open>t\<close>: the waiting call runs if it is due.\<close>

definition advance :: "props \<Rightarrow> nat \<Rightarrow> 'e edit_state \<Rightarrow> 'e edit_state" where
  "advance pr t st =
     (let st' = st\<lparr>clock := max (clock st) t\<rparr>
      in case timer st of
           None \<Rightarrow> st'
         | Some (newDraft, due) \<Rightarrow>
             if due \<le> t
             then saveReportActionDraft (reportID pr) (reportActionID pr) newDraft (st'\<lparr>timer := None\<rparr>)
             else st')"

text \<open>The values written to the Local Store as drafts, oldest first.\<close>

fun draft_writes :: "'e effect list \<Rightarrow> (string \<times> string \<times> string) list" where
  "draft_writes [] = []"
| "draft_writes (SaveReportActionDraft rid aid text # es) = (rid, aid, text) # draft_writes es"
| "draft_writes (_ # es) = draft_writes es"

text \<open>The mutations dispatched, oldest first.\<close>

fun mutations :: "'e effect list \<Rightarrow> (string option \<times> string \<times> string) list" where
  "mutations [] = []"
| "mutations (EditReportComment rid aid text # es) = (rid, aid, text) # mutations es"
| "mutations (_ # es) = mutations es"

subsection \<open>The handlers\<close>

definition updateDraft :: "'e edit_env \<Rightarrow> props \<Rightarrow> string \<Rightarrow> 'e edit_state \<Rightarrow> 'e edit_state" where
  "updateDraft env pr newDraftInput st =
     (let (newDraft, emojis) = replaceEmojis env newDraftInput (preferredSkinTone pr);
          st1 = (if emojis \<noteq> [] then emit (UpdateFrequentlyUsedEmojis emojis) st else st);
          st2 = st1\<lparr>selection :=
                      (if newDraftInput \<noteq> newDraft
                       then (let remainder = int (length (slice (draft st1) (snd (selection st1))))
                             in (int (length newDraft) - remainder, int (length newDraft) - remainder))
                       else selection st1),
                    draft := newDraft\<rparr>
      in if length (trim newDraft) > 0
         then debouncedSaveDraft (escape env newDraft) st2
         else debouncedSaveDraft (messageHtml pr) st2)"

definition deleteDraft :: "props \<Rightarrow> 'e edit_state \<Rightarrow> 'e edit_state" where
  "deleteDraft pr st =
     (let st1 = debouncedSaveDraft_cancel st;
          st2 = saveReportActionDraft (reportID pr) (reportActionID pr) [] st1;
          st3 = setShouldShowComposeInput True st2;
          st4 = composeFocus st3
      in if index pr = 0 then emit AddKeyboardDidHideListener st4 else st4)"

definition publishDraft :: "'e edit_env \<Rightarrow> props \<Rightarrow> 'e edit_state \<Rightarrow> 'e edit_state" where
  "publishDraft env pr st =
     (if getCommentLength env (draft st) > MAX_COMMENT_LENGTH env then st
      else
        (let st1 = debouncedSaveDraft_cancel st;
             trimmedNewDraft = trim (draft st);
             rid = (if parentReportActionID pr = Some (reportActionID pr)
                    then parentReportID pr else Some (reportID pr))
         in if trimmedNewDraft = []
            then showDeleteModal rid (reportActionID pr) st1
            else deleteDraft pr (editReportComment rid (reportActionID pr) trimmedNewDraft st1)))"


section \<open>Editing a distance request (EditRequestDistancePage, src/unnamed/part_001)\<close>

text \<open>
  Modelled from the spec: the transactions of the Local Store and their temporary copies
  are kept by modules that are not in src.  Section 2, section 3 and the glossary: a
  temporary transaction copy is a draft, transient edit state layered over the Local Store
  and shadowing a permanent entity.  So a transaction is stored either as a permanent entity
  under its identifier or as a temporary copy under a name of the draft layer.
\<close>

datatype txn_key = Permanent string | Temporary string

record transaction =
  transactionID :: "txn_key option"
  waypoints :: json

text \<open>
  The state the page acts on: the transactions of the Local Store, the transaction
  identifier of the distance request, and the update mutations dispatched
  (transaction, report, waypoints).
\<close>

record page_state =
  transactions :: "txn_key \<Rightarrow> transaction option"
  distanceRequestTransactionID :: "string option"
  updates :: "(txn_key option \<times> string \<times> json) list"

text \<open>
  Modelled from the spec: \<open>TransactionUtils.createTemporaryTransaction\<close> and
  \<open>TransactionUtils.removeTemporaryTransaction\<close> are not in src.  Section 4.3
  (\<open>createDraft(ownerKey, initialContent)\<close>) and section 3: the copy is created with the
  content of its original, is a new draft at every call, and is destroyed by removing it.
  The name the copy gets in the draft layer is a parameter.
\<close>

definition createTemporaryTransaction :: "string \<Rightarrow> transaction \<Rightarrow> page_state \<Rightarrow> transaction \<times> page_state" where
  "createTemporaryTransaction name t st =
     (let t' = t\<lparr>transactionID := Some (Temporary name)\<rparr>
      in (t', st\<lparr>transactions := (transactions st)(Temporary name \<mapsto> t')\<rparr>))"

definition removeTemporaryTransaction :: "txn_key option \<Rightarrow> page_state \<Rightarrow> page_state" where
  "removeTemporaryTransaction tid st =
     (case tid of None \<Rightarrow> st | Some k \<Rightarrow> st\<lparr>transactions := (transactions st)(k := None)\<rparr>)"

text \<open>
  Modelled from the spec: \<open>IOU.setDistanceRequestTransactionID\<close>,
  \<open>IOU.updateDistanceRequest\<close> and the \<open>DistanceRequest\<close> component are not in src.
  Section 4.3 and section 6: the editor replaces the content of the transaction whose
  identifier it is given (and can change nothing when there is none), and committed
  content reaches the permanent entity through the named mutation only.
\<close>

definition setDistanceRequestTransactionID :: "string \<Rightarrow> page_state \<Rightarrow> page_state" where
  "setDistanceRequestTransactionID tid st = st\<lparr>distanceRequestTransactionID := Some tid\<rparr>"

definition updateDistanceRequest :: "txn_key option \<Rightarrow> string \<Rightarrow> json \<Rightarrow> page_state \<Rightarrow> page_state" where
  "updateDistanceRequest tid rid w st = st\<lparr>updates := updates st @ [(tid, rid, w)]\<rparr>"

definition DistanceRequest_edit :: "txn_key option \<Rightarrow> json \<Rightarrow> page_state \<Rightarrow> page_state" where
  "DistanceRequest_edit tid w st =
     (case tid of
        None \<Rightarrow> st
      | Some k \<Rightarrow>
          (case transactions st k of
             None \<Rightarrow> st
           | Some t \<Rightarrow> st\<lparr>transactions := (transactions st)(k \<mapsto> t\<lparr>waypoints := w\<rparr>)\<rparr>))"

text \<open>
  The page.  Its props are \<open>transactionID\<close>, the report's \<open>reportID\<close> and, from the Local
  Store, the \<open>transaction\<close> stored under \<open>transactionID\<close> (\<open>{}\<close> by default).
\<close>

record page_props =
  propTransactionID :: string
  propReportID :: string

definition transactionProp :: "page_props \<Rightarrow> page_state \<Rightarrow> transaction" where
  "transactionProp pp st =
     (case transactions st (Permanent (propTransactionID pp)) of
        None \<Rightarrow> \<lparr>transactionID = None, waypoints = JNull\<rparr>
      | Some t \<Rightarrow> t)"

text \<open>
  What a render leaves behind: \<open>transactionToEdit\<close> and the \<open>transaction\<close> prop of that
  render (the closures \<open>saveTransaction\<close> and the effect cleanup hold them, and the editor
  is given \<open>transactionToEdit.transactionID\<close>), and the state of the store.
\<close>

record page =
  transactionToEdit :: transaction
  original :: transaction
  pstate :: page_state

text \<open>
  The body of the component runs at every render and calls
  \<open>createTemporaryTransaction(transaction)\<close> each time (line 48).
\<close>

definition render :: "string \<Rightarrow> page_props \<Rightarrow> page_state \<Rightarrow> page" where
  "render name pp st =
     (let t = transactionProp pp st;
          (t', st1) = createTemporaryTransaction name t st
      in \<lparr>transactionToEdit = t', original = t, pstate = st1\<rparr>)"

text \<open>
  The first render is followed by both effects: the one with no dependencies sets the
  identifier of the distance request (lines 49 to 52), the other only registers its cleanup
  (line 56).
\<close>

definition mount :: "string \<Rightarrow> page_props \<Rightarrow> page_state \<Rightarrow> page" where
  "mount name pp st =
     (let pg = render name pp st
      in pg\<lparr>pstate := setDistanceRequestTransactionID (propTransactionID pp) (pstate pg)\<rparr>)"

text \<open>
  A later render makes a new \<open>transactionToEdit\<close>, so the effect of line 56, whose
  dependency is \<open>transactionToEdit\<close>, runs again: first the cleanup of the render before,
  which removes the temporary transaction of that render.
\<close>

definition rerender :: "string \<Rightarrow> page_props \<Rightarrow> page \<Rightarrow> page" where
  "rerender name pp pg =
     (let pg' = render name pp (pstate pg)
      in pg'\<lparr>pstate := removeTemporaryTransaction (transactionID (transactionToEdit pg)) (pstate pg')\<rparr>)"

definition saveTransaction :: "page_props \<Rightarrow> json \<Rightarrow> page \<Rightarrow> page" where
  "saveTransaction pp w pg =
     pg\<lparr>pstate := updateDistanceRequest (transactionID (original pg)) (propReportID pp) w (pstate pg)\<rparr>"

text \<open>
  What happens while the page is mounted: the editor edits the transaction it was given,
  the editor submits (\<open>onSubmit\<close> is \<open>saveTransaction\<close>), or the page renders again, the
  temporary copy getting the given name.
\<close>

datatype page_event = Edit json | Submit json | Rerender string

fun page_step :: "page_props \<Rightarrow> page_event \<Rightarrow> page \<Rightarrow> page" where
  "page_step pp (Edit w) pg =
     pg\<lparr>pstate := DistanceRequest_edit (transactionID (transactionToEdit pg)) w (pstate pg)\<rparr>"
| "page_step pp (Submit w) pg = saveTransaction pp w pg"
| "page_step pp (Rerender name) pg = rerender name pp pg"

definition page_run :: "page_props \<Rightarrow> page_event list \<Rightarrow> page \<Rightarrow> page" where
  "page_run pp evs pg = fold (page_step pp) evs pg"








section \<open>What a sequence of patches does to one key\<close>

text \<open>
  A sequence of patches to one key acts on the value under that key as one patch of a
  richer kind: leave the value (\<open>XId\<close>), replace it (\<open>XSet\<close>), or make it an object and
  act on its properties (\<open>XMerge\<close>).  These patches are closed under sequencing
  (\<open>xthen q p\<close> is \<open>p\<close>, then \<open>q\<close>), which the partial values of \<open>merge\<close> alone are not.
\<close>

datatype xpatch = XId | XSet json | XMerge "(string, xpatch) fmap"

primrec xapply :: "xpatch \<Rightarrow> json \<Rightarrow> json" where
  "xapply XId = (\<lambda>old. old)"
| "xapply (XSet v) = (\<lambda>old. v)"
| "xapply (XMerge m) = (\<lambda>old. JObj (entries old ++\<^sub>f
      fmmap_keys (\<lambda>k f. f (getField old k)) (fmmap xapply m)))"

primrec embed :: "json \<Rightarrow> xpatch" where
  "embed JNull = XSet JNull"
| "embed (JBool b) = XSet (JBool b)"
| "embed (JNum n) = XSet (JNum n)"
| "embed (JStr s) = XSet (JStr s)"
| "embed (JArr xs) = XSet (JArr xs)"
| "embed (JObj p) = XMerge (fmmap embed p)"

primrec xthen :: "xpatch \<Rightarrow> xpatch \<Rightarrow> xpatch" where
  "xthen XId = (\<lambda>p. p)"
| "xthen (XSet v) = (\<lambda>p. XSet v)"
| "xthen (XMerge m2) = (\<lambda>p. case p of
      XId \<Rightarrow> XMerge m2
    | XSet v \<Rightarrow> XSet (xapply (XMerge m2) v)
    | XMerge m1 \<Rightarrow> XMerge (m1 ++\<^sub>f fmmap_keys
          (\<lambda>k f. f (case fmlookup m1 k of None \<Rightarrow> XId | Some p' \<Rightarrow> p')) (fmmap xthen m2)))"

definition slot :: "xpatch \<Rightarrow> json option \<Rightarrow> json option" where
  "slot x v =
     (case x of
        XId \<Rightarrow> v
      | _ \<Rightarrow> Some (xapply x (case v of None \<Rightarrow> JNull | Some old \<Rightarrow> old)))"

definition xpatch_of :: "'k patch \<Rightarrow> xpatch" where
  "xpatch_of p = (case onyxMethod p of MERGE \<Rightarrow> embed (pvalue p) | SET \<Rightarrow> XSet (pvalue p))"

fun summary :: "'k patch list \<Rightarrow> 'k \<Rightarrow> xpatch" where
  "summary [] k = XId"
| "summary (p # ps) k = (if key p = k then xthen (summary ps k) (xpatch_of p) else summary ps k)"


section \<open>Concrete inputs\<close>

text \<open>The value under a key; a key never written reads as \<open>undefined\<close>.\<close>

definition read :: "'k store \<Rightarrow> 'k \<Rightarrow> json" where
  "read s k = (case s k of None \<Rightarrow> JNull | Some v \<Rightarrow> v)"

definition empty_store :: "onyx_key store" where
  "empty_store = (\<lambda>k. None)"

text \<open>A store in which card 7 is listed and its activation is in flight.\<close>

definition card_store :: "onyx_key store" where
  "card_store = empty_store(CARD_LIST \<mapsto>
     obj [(''7'', obj [(''isLoading'', JBool True), (''state'', JNum 3)])])"


definition card_env0 :: card_env where
  "card_env0 = \<lparr>JSON_CODE_SUCCESS = JNum 200, translateLocal = (\<lambda>phrase. phrase)\<rparr>"

definition ok_response :: response where
  "ok_response = \<lparr>jsonCode = Some (JNum 200)\<rparr>"

definition error_response :: response where
  "error_response = \<lparr>jsonCode = Some (JNum 404)\<rparr>"

definition no_answer :: "response settled" where
  "no_answer = Failed"

text \<open>
  An edit of the comment \<open>Hello\<close> of report 1: no emoji is replaced, nothing is escaped, the
  comment length is the length of the text, and at most 10000 characters are allowed.
\<close>

definition edit_env0 :: "string edit_env" where
  "edit_env0 = \<lparr>replaceEmojis = (\<lambda>input tone. (input, [])), escape = (\<lambda>input. input),
                 getCommentLength = length, MAX_COMMENT_LENGTH = 10000\<rparr>"

definition props0 :: props where
  "props0 = \<lparr>reportID = ''1'', reportActionID = ''2'', messageHtml = ''Hello'', index = 0,
              parentReportActionID = None, parentReportID = None, preferredSkinTone = - 1\<rparr>"

definition editing :: "string \<Rightarrow> (string \<times> nat) option \<Rightarrow> string edit_state" where
  "editing text waiting =
     \<lparr>draft = text, selection = (int (length text), int (length text)), clock = 0,
      timer = waiting,
      drafts = (\<lambda>owner. if owner = (''1'', ''2'') then Some ''Hello'' else None),
      comments = (\<lambda>owner. if owner = (Some ''1'', ''2'') then Some ''Hello'' else None),
      shouldShowComposeInput = False, composerFocused = False, effects = []\<rparr>"

definition long_text :: string where
  "long_text = replicate 10001 (CHR ''a'')"

text \<open>The distance request 100 of report 1, its waypoints being \<open>A\<close>.\<close>

definition page_props0 :: page_props where
  "page_props0 = \<lparr>propTransactionID = ''100'', propReportID = ''1''\<rparr>"

definition page_state0 :: page_state where
  "page_state0 =
     \<lparr>transactions = (\<lambda>k. if k = Permanent ''100''
                            then Some \<lparr>transactionID = Some (Permanent ''100''), waypoints = JStr ''A''\<rparr>
                            else None),
      distanceRequestTransactionID = None, updates = []\<rparr>"



section \<open>Replaying patches\<close>

lemma xapply_embed: "xapply (embed p) = merge_patch p"
proof (induction p)
  case (JObj m)
  have "fmmap (xapply \<circ> embed) m = fmmap merge_patch m"
    by (rule fmap.map_cong) (auto simp: JObj.IH)
  then show ?case by (simp add: fmap.map_comp)
qed simp_all

lemma embed_not_XId: "embed v \<noteq> XId"
  by (cases v) simp_all

lemma xthen_XId: "xthen q XId = q"
  by (cases q) simp_all

lemma xthen_not_XId: "p \<noteq> XId \<Longrightarrow> xthen q p \<noteq> XId"
  by (cases q; cases p) simp_all

lemma xapply_idem: "xapply x (xapply x s) = xapply x s"
proof (induction x arbitrary: s)
  case (XMerge m)
  have "fmlookup (entries (xapply (XMerge m) (xapply (XMerge m) s))) k
      = fmlookup (entries (xapply (XMerge m) s)) k" for k
  proof (cases "fmlookup m k")
    case None
    then show ?thesis by (simp add: fmdom_notI)
  next
    case (Some a)
    then have "a \<in> fmran' m" by (auto intro: fmran'I)
    then show ?thesis using Some XMerge.IH by (simp add: getField_def fmdomI)
  qed
  then have "entries (xapply (XMerge m) (xapply (XMerge m) s)) = entries (xapply (XMerge m) s)"
    by (rule fmap_ext)
  then show ?case by simp
qed simp_all

lemma xapply_xthen: "xapply (xthen q p) s = xapply q (xapply p s)"
proof (induction q arbitrary: p s)
  case (XMerge m2)
  show ?case
  proof (cases p)
    case (XMerge m1)
    have "fmlookup (entries (xapply (xthen (XMerge m2) (XMerge m1)) s)) k
        = fmlookup (entries (xapply (XMerge m2) (xapply (XMerge m1) s))) k" for k
    proof (cases "fmlookup m2 k")
      case None
      then show ?thesis by (cases "fmlookup m1 k") (simp_all add: fmdom_notI fmdomI)
    next
      case (Some q')
      then have q': "q' \<in> fmran' m2" by (auto intro: fmran'I)
      show ?thesis
      proof (cases "fmlookup m1 k")
        case None
        then show ?thesis using Some XMerge.IH[OF q', of XId]
          by (simp add: fmdom_notI fmdomI getField_def)
      next
        case (Some p')
        then show ?thesis using \<open>fmlookup m2 k = Some q'\<close> XMerge.IH[OF q', of p']
          by (simp add: fmdom_notI fmdomI getField_def)
      qed
    qed
    then have "entries (xapply (xthen (XMerge m2) (XMerge m1)) s)
        = entries (xapply (XMerge m2) (xapply (XMerge m1) s))"
      by (rule fmap_ext)
    then show ?thesis unfolding XMerge by simp
  qed simp_all
qed simp_all

lemma slot_idem: "slot x (slot x v) = slot x v"
  by (cases x) (simp_all add: slot_def xapply_idem del: xapply.simps)

lemma slot_xthen: "slot (xthen q p) v = slot q (slot p v)"
proof (cases "p = XId")
  case True
  then show ?thesis by (simp add: xthen_XId slot_def)
next
  case False
  note p = this
  show ?thesis
  proof (cases "q = XId")
    case True
    then show ?thesis by simp (simp add: slot_def)
  next
    case False
    from p have "xthen q p \<noteq> XId" by (rule xthen_not_XId)
    then have "slot (xthen q p) v = Some (xapply (xthen q p) (case v of None \<Rightarrow> JNull | Some old \<Rightarrow> old))"
      by (cases "xthen q p") (simp_all add: slot_def)
    moreover from p have "slot p v = Some (xapply p (case v of None \<Rightarrow> JNull | Some old \<Rightarrow> old))"
      by (cases p) (simp_all add: slot_def)
    moreover from False have "slot q (Some w) = Some (xapply q w)" for w
      by (cases q) (simp_all add: slot_def)
    ultimately show ?thesis by (simp add: xapply_xthen del: xapply.simps)
  qed
qed

lemma apply_patch_slot: "apply_patch p s k = (if key p = k then slot (xpatch_of p) (s k) else s k)"
proof (cases "onyxMethod p")
  case MERGE
  have "slot (embed (pvalue p)) v = Some (xapply (embed (pvalue p)) (case v of None \<Rightarrow> JNull | Some old \<Rightarrow> old))" for v
    using embed_not_XId[of "pvalue p"] by (cases "embed (pvalue p)") (simp_all add: slot_def)
  then show ?thesis using MERGE
    by (simp add: apply_patch_def onyx_merge_def merge_def xpatch_of_def xapply_embed)
next
  case SET
  then show ?thesis by (simp add: apply_patch_def onyx_set_def xpatch_of_def slot_def)
qed

lemma apply_patches_summary: "apply_patches ps s k = slot (summary ps k) (s k)"
proof (induction ps arbitrary: s)
  case Nil
  then show ?case by (simp add: apply_patches_def slot_def)
next
  case (Cons p ps)
  have "apply_patches (p # ps) s k = apply_patches ps (apply_patch p s) k"
    by (simp add: apply_patches_def)
  also have "\<dots> = slot (summary ps k) (apply_patch p s k)" by (rule Cons.IH)
  also have "\<dots> = slot (summary (p # ps) k) (s k)"
    by (simp add: apply_patch_slot slot_xthen)
  finally show ?case .
qed

lemma apply_patches_idem: "apply_patches ps (apply_patches ps s) = apply_patches ps s"
  by (rule ext) (simp add: apply_patches_summary slot_idem)

text \<open>
  Claim C2.  For the \<open>optimisticData\<close> of every mutation and every state of the store,
  applying the patches twice in sequence gives the same store as applying them once.
\<close>

theorem optimisticData_replay_idempotent:
  "apply_patches (optimisticData m) (apply_patches (optimisticData m) s)
     = apply_patches (optimisticData m) s"
  by (rule apply_patches_idem)

theorem optimisticData_replay_idempotent_witness:
  "apply_patches (optimisticData (activatePhysicalExpensifyCard_data 7))
     (apply_patches (optimisticData (activatePhysicalExpensifyCard_data 7)) card_store)
   = apply_patches (optimisticData (activatePhysicalExpensifyCard_data 7)) card_store"
  by (rule optimisticData_replay_idempotent)


section \<open>Dispatching mutations\<close>

lemma applied_simps:
  "applied ph name [] = 0"
  "applied ph name (e # evs) = (if e = Applied ph name then 1 else 0) + applied ph name evs"
  by (simp_all add: applied_def)

lemma resolve_all_queue:
  "length sigs = length (queue st) \<Longrightarrow>
     queue (resolve_all sigs (st\<lparr>queue := queue st @ [r], trace := trace st @ evs\<rparr>)) = [r] \<and>
     trace (resolve_all sigs (st\<lparr>queue := queue st @ [r], trace := trace st @ evs\<rparr>))
       = trace st @ evs @ map (\<lambda>(s, q). Applied (outcome s) (command q)) (zip sigs (queue st))"
proof (induction sigs arbitrary: st evs)
  case Nil
  then show ?case by (simp add: resolve_all_def)
next
  case (Cons s sigs)
  then obtain q qs where q: "queue st = q # qs" by (cases "queue st") auto
  let ?st' = "st\<lparr>store := apply_patches (case s of RemoteSuccess \<Rightarrow> onSuccess q | RemoteFailure \<Rightarrow> onFailure q) (store st),
                   queue := qs\<rparr>"
  have step: "resolve s (st\<lparr>queue := queue st @ [r], trace := trace st @ evs\<rparr>)
      = ?st'\<lparr>queue := queue ?st' @ [r], trace := trace ?st' @ (evs @ [Applied (outcome s) (command q)])\<rparr>"
    by (simp add: resolve_def q)
  have len: "length sigs = length (queue ?st')" using Cons.prems q by simp
  have "resolve_all (s # sigs) (st\<lparr>queue := queue st @ [r], trace := trace st @ evs\<rparr>)
      = resolve_all sigs (resolve s (st\<lparr>queue := queue st @ [r], trace := trace st @ evs\<rparr>))"
    by (simp add: resolve_all_def)
  also have "\<dots> = resolve_all sigs
      (?st'\<lparr>queue := queue ?st' @ [r], trace := trace ?st' @ (evs @ [Applied (outcome s) (command q)])\<rparr>)"
    by (simp only: step)
  finally show ?case
    using Cons.IH[OF len, of "evs @ [Applied (outcome s) (command q)]"]
    by (simp add: q)
qed

lemma write_resolved_in_order:
  assumes "length sigs = length (queue st)"
  shows "trace (resolve sig (resolve_all sigs (API_write name params data st)))
       = trace st @ [Applied Optimistic name, Enqueued name params] @
         map (\<lambda>(s, q). Applied (outcome s) (command q)) (zip sigs (queue st)) @
         [Applied (outcome sig) name]"
proof -
  let ?r = "\<lparr>command = name, parameters = params,
             onSuccess = successData data, onFailure = failureData data\<rparr>"
  let ?st = "st\<lparr>store := apply_patches (optimisticData data) (store st)\<rparr>"
  have w: "API_write name params data st
      = ?st\<lparr>queue := queue ?st @ [?r],
            trace := trace ?st @ [Applied Optimistic name, Enqueued name params]\<rparr>"
    by (simp add: API_write_def)
  have len: "length sigs = length (queue ?st)" using assms by simp
  show ?thesis
    unfolding w
    using resolve_all_queue[OF len, where r = ?r
        and evs = "[Applied Optimistic name, Enqueued name params]"]
    by (simp add: resolve_def)
qed

text \<open>
  Claim C1.  A mutation dispatched with \<open>API.write\<close> has its \<open>optimisticData\<close> applied
  exactly once, at the call and before the request is enqueued; when the Command Queue
  answers, exactly one of \<open>successData\<close> and \<open>failureData\<close> is applied, whatever the answer.
\<close>

theorem write_applies_each_patch_set_once:
  "store (API_write name params data (init s)) = apply_patches (optimisticData data) s \<and>
   trace (API_write name params data (init s)) = [Applied Optimistic name, Enqueued name params] \<and>
   trace (resolve sig (API_write name params data (init s)))
     = [Applied Optimistic name, Enqueued name params, Applied (outcome sig) name] \<and>
   applied Optimistic name (trace (resolve sig (API_write name params data (init s)))) = 1 \<and>
   applied Success name (trace (resolve sig (API_write name params data (init s))))
     + applied Failure name (trace (resolve sig (API_write name params data (init s)))) = 1 \<and>
   store (resolve sig (API_write name params data (init s)))
     = apply_patches (case sig of RemoteSuccess \<Rightarrow> successData data | RemoteFailure \<Rightarrow> failureData data)
         (apply_patches (optimisticData data) s)"
  by (cases sig) (simp_all add: API_write_def init_def resolve_def applied_simps)

theorem write_applies_each_patch_set_once_witness:
  "store (reportVirtualExpensifyCardFraud 7 (init empty_store))
     = apply_patches (optimisticData (reportVirtualExpensifyCardFraud_data 7)) empty_store \<and>
   trace (resolve RemoteFailure (reportVirtualExpensifyCardFraud 7 (init empty_store)))
     = [Applied Optimistic ''ReportVirtualExpensifyCardFraud'',
        Enqueued ''ReportVirtualExpensifyCardFraud'' [(''cardID'', JNum 7)],
        Applied Failure ''ReportVirtualExpensifyCardFraud''] \<and>
   applied Success ''ReportVirtualExpensifyCardFraud''
       (trace (resolve RemoteFailure (reportVirtualExpensifyCardFraud 7 (init empty_store))))
     + applied Failure ''ReportVirtualExpensifyCardFraud''
       (trace (resolve RemoteFailure (reportVirtualExpensifyCardFraud 7 (init empty_store)))) = 1"
  using write_applies_each_patch_set_once
    [of "''ReportVirtualExpensifyCardFraud''" "[(''cardID'', JNum 7)]"
        "reportVirtualExpensifyCardFraud_data 7" empty_store RemoteFailure]
  by (simp add: reportVirtualExpensifyCardFraud_def applied_simps)

lemma getField_obj: "getField (obj kvs) k = (case map_of kvs k of None \<Rightarrow> JNull | Some v \<Rightarrow> v)"
  by (simp add: getField_def obj_def fmlookup_of_list)

lemma fmlookup_add_case:
  "fmlookup (m ++\<^sub>f n) k = (case fmlookup n k of None \<Rightarrow> fmlookup m k | Some v \<Rightarrow> Some v)"
  by (cases "fmlookup n k") (simp_all add: fmdom_notI fmdomI)

lemma getField_merge_obj:
  "getField (merge old (obj kvs)) k =
     (case map_of kvs k of None \<Rightarrow> getField old k | Some v \<Rightarrow> merge (getField old k) v)"
  by (cases "map_of kvs k")
     (simp_all add: merge_def obj_def getField_def fmlookup_of_list fmlookup_add_case del: fmlookup_add)

lemma merge_scalar:
  "merge old JNull = JNull"
  "merge old (JBool b) = JBool b"
  "merge old (JNum n) = JNum n"
  "merge old (JStr x) = JStr x"
  "merge old (JArr xs) = JArr xs"
  by (simp_all add: merge_def)

text \<open>
  Claim C4, as amended.  When \<open>RequestReplacementExpensifyCard\<close> is dispatched for card 7
  with reason \<open>stolen\<close> and the request fails, the entry under the form key
  \<open>FORMS.REPORT_PHYSICAL_CARD_FORM\<close> has \<open>isLoading: false\<close>, and the entry under
  \<open>CARD_LIST\<close>, with the status of the card, is what it was before the dispatch.
\<close>

theorem replacement_failure_touches_form_only:
  "getField (read (store (resolve RemoteFailure
       (requestReplacementExpensifyCard 7 ''stolen'' (init s)))) FORMS_REPORT_PHYSICAL_CARD_FORM)
     ''isLoading'' = JBool False \<and>
   store (resolve RemoteFailure (requestReplacementExpensifyCard 7 ''stolen'' (init s))) CARD_LIST
     = s CARD_LIST"
  by (simp add: requestReplacementExpensifyCard_def requestReplacementExpensifyCard_data_def
      API_write_def init_def resolve_def apply_patches_def apply_patch_def onyx_merge_def read_def
      getField_merge_obj merge_scalar)

theorem replacement_failure_touches_form_only_witness:
  "getField (read (store (resolve RemoteFailure
       (requestReplacementExpensifyCard 7 ''stolen'' (init card_store)))) FORMS_REPORT_PHYSICAL_CARD_FORM)
     ''isLoading'' = JBool False \<and>
   read (store (resolve RemoteFailure (requestReplacementExpensifyCard 7 ''stolen'' (init card_store)))) CARD_LIST
     = obj [(''7'', obj [(''isLoading'', JBool True), (''state'', JNum 3)])]"
  using replacement_failure_touches_form_only [of card_store]
  by (simp add: read_def card_store_def)

theorem replacement_failure_card_list_counterexample:
  "getField (getField (read (store (resolve RemoteFailure
       (requestReplacementExpensifyCard 7 ''stolen'' (init card_store)))) CARD_LIST) ''7'')
     ''isLoading'' = JBool True \<and>
   getField (read (store (resolve RemoteFailure
       (requestReplacementExpensifyCard 7 ''stolen'' (init card_store)))) CARD_LIST)
     ''isLoading'' \<noteq> JBool False"
  by (simp add: requestReplacementExpensifyCard_def requestReplacementExpensifyCard_data_def
      API_write_def init_def resolve_def apply_patches_def apply_patch_def onyx_merge_def read_def
      card_store_def getField_obj)

text \<open>
  Claim C10.  \<open>revealVirtualCardDetails\<close> resolves with the response exactly when the
  request is answered by a response whose \<open>jsonCode\<close> is the success code; for every other
  response and for a transport error it rejects with the localized
  \<open>cardPage.cardDetailsLoadingFailure\<close> message; it writes nothing to the Local Store and
  enqueues nothing.
\<close>

theorem revealVirtualCardDetails_resolves_iff_success:
  "(\<forall>r. (fst (revealVirtualCardDetails env cardID answer st) = Resolved r)
        = (answer = Fulfilled (Some r) \<and> jsonCode r = Some (JSON_CODE_SUCCESS env))) \<and>
   ((\<forall>r. answer = Fulfilled (Some r) \<longrightarrow> jsonCode r \<noteq> Some (JSON_CODE_SUCCESS env)) \<longrightarrow>
      fst (revealVirtualCardDetails env cardID answer st)
        = Rejected (translateLocal env ''cardPage.cardDetailsLoadingFailure'')) \<and>
   store (snd (revealVirtualCardDetails env cardID answer st)) = store st \<and>
   queue (snd (revealVirtualCardDetails env cardID answer st)) = queue st"
  by (auto simp: revealVirtualCardDetails_def Let_def split: settled.splits option.splits)

theorem revealVirtualCardDetails_resolves_iff_success_witness:
  "fst (revealVirtualCardDetails card_env0 7 (Fulfilled (Some ok_response)) (init empty_store))
     = Resolved ok_response \<and>
   fst (revealVirtualCardDetails card_env0 7 (Fulfilled (Some error_response)) (init empty_store))
     = Rejected ''cardPage.cardDetailsLoadingFailure'' \<and>
   fst (revealVirtualCardDetails card_env0 7 no_answer (init empty_store))
     = Rejected ''cardPage.cardDetailsLoadingFailure'' \<and>
   store (snd (revealVirtualCardDetails card_env0 7 (Fulfilled (Some ok_response)) (init card_store)))
     = card_store"
  using revealVirtualCardDetails_resolves_iff_success
          [of card_env0 7 "Fulfilled (Some ok_response)" "init empty_store"]
        revealVirtualCardDetails_resolves_iff_success
          [of card_env0 7 "Fulfilled (Some error_response)" "init empty_store"]
        revealVirtualCardDetails_resolves_iff_success
          [of card_env0 7 no_answer "init empty_store"]
        revealVirtualCardDetails_resolves_iff_success
          [of card_env0 7 "Fulfilled (Some ok_response)" "init card_store"]
  by (simp add: card_env0_def ok_response_def error_response_def no_answer_def init_def)


section \<open>The draft of a message\<close>

lemma trim_blank: "trim ''  '' = []"
  by (simp add: trim_def is_space_def)

lemma trim_Hell: "trim ''Hell'' = ''Hell''"
  by (simp add: trim_def is_space_def)

lemma trim_Hello: "trim ''Hello!'' = ''Hello!''"
  by (simp add: trim_def is_space_def)

lemma draft_writes_append: "draft_writes (xs @ ys) = draft_writes xs @ draft_writes ys"
  by (induction xs rule: draft_writes.induct) simp_all

lemma mutations_append: "mutations (xs @ ys) = mutations xs @ mutations ys"
  by (induction xs rule: mutations.induct) simp_all

lemma updateDraft_timer:
  "timer (updateDraft env pr x st) =
     Some (if length (trim (fst (replaceEmojis env x (preferredSkinTone pr)))) > 0
           then escape env (fst (replaceEmojis env x (preferredSkinTone pr)))
           else messageHtml pr, clock st + 1000)"
  by (simp add: updateDraft_def debouncedSaveDraft_def emit_def Let_def split: prod.splits)

lemma updateDraft_clock: "clock (updateDraft env pr x st) = clock st"
  by (simp add: updateDraft_def debouncedSaveDraft_def emit_def Let_def split: prod.splits)

lemma updateDraft_draft_writes:
  "draft_writes (effects (updateDraft env pr x st)) = draft_writes (effects st)"
  by (simp add: updateDraft_def debouncedSaveDraft_def emit_def Let_def draft_writes_append
      split: prod.splits)

lemma advance_not_due:
  "timer st = Some (a, due) \<Longrightarrow> t < due \<Longrightarrow> advance pr t st = st\<lparr>clock := max (clock st) t\<rparr>"
  by (simp add: advance_def Let_def)

lemma advance_due:
  "timer st = Some (a, due) \<Longrightarrow> due \<le> t \<Longrightarrow>
     advance pr t st =
       saveReportActionDraft (reportID pr) (reportActionID pr) a
         (st\<lparr>clock := max (clock st) t, timer := None\<rparr>)"
  by (simp add: advance_def Let_def)

text \<open>
  Claim C6, as amended.  Two calls of \<open>updateDraft\<close> for the same owner key, the second
  less than one second after the first, give exactly one write of the draft to the Local
  Store once the debounce interval after the second call has passed.  The value written is
  the content of the second call as \<open>updateDraft\<close> saves it: the escaped text after emoji
  replacement, or the HTML of the original message when that text is empty after trimming.
\<close>

theorem two_updates_within_a_second_write_once:
  assumes "clock st \<le> t2" and "t2 < clock st + 1000" and "t2 + 1000 \<le> T"
  shows "draft_writes (effects (advance pr T (updateDraft env pr x2 (advance pr t2 (updateDraft env pr x1 st)))))
       = draft_writes (effects st) @
         [(reportID pr, reportActionID pr,
           if length (trim (fst (replaceEmojis env x2 (preferredSkinTone pr)))) > 0
           then escape env (fst (replaceEmojis env x2 (preferredSkinTone pr)))
           else messageHtml pr)]"
proof -
  let ?s1 = "updateDraft env pr x1 st"
  obtain a1 where t1: "timer ?s1 = Some (a1, clock st + 1000)"
    by (simp add: updateDraft_timer)
  have s2: "advance pr t2 ?s1 = ?s1\<lparr>clock := max (clock ?s1) t2\<rparr>"
    using t1 assms(2) by (rule advance_not_due)
  let ?s2 = "advance pr t2 ?s1"
  have c2: "clock ?s2 = t2" using assms(1) by (simp add: s2 updateDraft_clock)
  have w2: "draft_writes (effects ?s2) = draft_writes (effects st)"
    by (simp add: s2 updateDraft_draft_writes)
  let ?s3 = "updateDraft env pr x2 ?s2"
  let ?a2 = "if length (trim (fst (replaceEmojis env x2 (preferredSkinTone pr)))) > 0
           then escape env (fst (replaceEmojis env x2 (preferredSkinTone pr)))
           else messageHtml pr"
  have t3: "timer ?s3 = Some (?a2, t2 + 1000)"
    by (simp only: updateDraft_timer c2)
  have "advance pr T ?s3 = saveReportActionDraft (reportID pr) (reportActionID pr) ?a2
         (?s3\<lparr>clock := max (clock ?s3) T, timer := None\<rparr>)"
    using t3 assms(3) by (rule advance_due)
  then have "draft_writes (effects (advance pr T ?s3))
      = draft_writes (effects ?s3) @ [(reportID pr, reportActionID pr, ?a2)]"
    by (simp add: saveReportActionDraft_def emit_def draft_writes_append)
  also have "draft_writes (effects ?s3) = draft_writes (effects st)"
    by (simp only: updateDraft_draft_writes w2)
  finally show ?thesis .
qed

theorem two_updates_within_a_second_write_once_witness:
  "clock (editing ''Hello'' None) \<le> 400 \<and> 400 < clock (editing ''Hello'' None) + 1000 \<and>
   400 + 1000 \<le> (1400::nat) \<and>
   draft_writes (effects (advance props0 1400 (updateDraft edit_env0 props0 ''Hello!''
       (advance props0 400 (updateDraft edit_env0 props0 ''Hell'' (editing ''Hello'' None))))))
     = [(''1'', ''2'', ''Hello!'')]"
proof -
  have h1: "clock (editing ''Hello'' None) \<le> 400" by (simp add: editing_def)
  have h2: "400 < clock (editing ''Hello'' None) + 1000" by (simp add: editing_def)
  have h3: "400 + 1000 \<le> (1400::nat)" by simp
  show ?thesis
    using h1 h2 two_updates_within_a_second_write_once [OF h1 h2 h3, of props0 edit_env0 "''Hello!''" "''Hell''"]
    by (simp add: editing_def props0_def edit_env0_def trim_Hello)
qed

text \<open>
  When the second call carries blanks only, the one write holds the original message, not
  the content of the second call.
\<close>

theorem two_updates_blank_second_counterexample:
  "draft_writes (effects (advance props0 1400 (updateDraft edit_env0 props0 ''  ''
       (advance props0 400 (updateDraft edit_env0 props0 ''Hell'' (editing ''Hello'' None))))))
     = [(''1'', ''2'', ''Hello'')] \<and>
   draft_writes (effects (advance props0 1400 (updateDraft edit_env0 props0 ''  ''
       (advance props0 400 (updateDraft edit_env0 props0 ''Hell'' (editing ''Hello'' None))))))
     \<noteq> [(''1'', ''2'', ''  '')]"
  by (simp add: updateDraft_def debouncedSaveDraft_def advance_def saveReportActionDraft_def
      emit_def Let_def edit_env0_def props0_def editing_def trim_blank trim_Hell)

text \<open>
  Claim C9.  When the text of \<open>updateDraft\<close>, after emoji replacement, is empty after
  trimming, the debounced save is given the HTML of the original message, and that is what
  is written as the draft; the persisted draft is then not empty (the original message
  being not empty).
\<close>

theorem blank_update_saves_original_html:
  assumes "trim (fst (replaceEmojis env x (preferredSkinTone pr))) = []"
    and "messageHtml pr \<noteq> []" and "clock st + 1000 \<le> T"
  shows "timer (updateDraft env pr x st) = Some (messageHtml pr, clock st + 1000) \<and>
         draft_writes (effects (advance pr T (updateDraft env pr x st)))
           = draft_writes (effects st) @ [(reportID pr, reportActionID pr, messageHtml pr)] \<and>
         drafts (advance pr T (updateDraft env pr x st)) (reportID pr, reportActionID pr)
           = Some (messageHtml pr) \<and>
         drafts (advance pr T (updateDraft env pr x st)) (reportID pr, reportActionID pr) \<noteq> Some []"
proof -
  have t: "timer (updateDraft env pr x st) = Some (messageHtml pr, clock st + 1000)"
    using assms(1) by (simp add: updateDraft_timer)
  have "advance pr T (updateDraft env pr x st)
      = saveReportActionDraft (reportID pr) (reportActionID pr) (messageHtml pr)
         ((updateDraft env pr x st)\<lparr>clock := max (clock (updateDraft env pr x st)) T, timer := None\<rparr>)"
    using t assms(3) by (rule advance_due)
  then show ?thesis using t assms(2)
    by (simp add: saveReportActionDraft_def emit_def draft_writes_append updateDraft_draft_writes)
qed

theorem blank_update_saves_original_html_witness:
  "trim (fst (replaceEmojis edit_env0 ''  '' (preferredSkinTone props0))) = [] \<and>
   messageHtml props0 \<noteq> [] \<and>
   clock (editing ''Hello'' None) + 1000 \<le> 1000 \<and>
   draft_writes (effects (advance props0 1000 (updateDraft edit_env0 props0 ''  '' (editing ''Hello'' None))))
     = [(''1'', ''2'', ''Hello'')] \<and>
   drafts (advance props0 1000 (updateDraft edit_env0 props0 ''  '' (editing ''Hello'' None))) (''1'', ''2'')
     = Some ''Hello''"
proof -
  have h1: "trim (fst (replaceEmojis edit_env0 ''  '' (preferredSkinTone props0))) = []"
    by (simp add: edit_env0_def trim_blank)
  have h2: "messageHtml props0 \<noteq> []" by (simp add: props0_def)
  have h3: "clock (editing ''Hello'' None) + 1000 \<le> 1000" by (simp add: editing_def)
  show ?thesis
    using h1 h2 h3 blank_update_saves_original_html [OF h1 h2 h3]
    by (simp add: editing_def props0_def)
qed

text \<open>
  Claim C7.  When the comment length of the draft exceeds the maximum, \<open>publishDraft\<close>
  returns at once: the state is unchanged, so no mutation is dispatched and nothing is
  written to the Local Store.
\<close>

theorem publishDraft_too_long_is_blocked:
  assumes "getCommentLength env (draft st) > MAX_COMMENT_LENGTH env"
  shows "publishDraft env pr st = st \<and>
         mutations (effects (publishDraft env pr st)) = mutations (effects st) \<and>
         draft_writes (effects (publishDraft env pr st)) = draft_writes (effects st) \<and>
         comments (publishDraft env pr st) = comments st \<and>
         drafts (publishDraft env pr st) = drafts st"
  using assms by (simp add: publishDraft_def)

theorem publishDraft_too_long_is_blocked_witness:
  "getCommentLength edit_env0 (draft (editing long_text (Some (long_text, 1000))))
     > MAX_COMMENT_LENGTH edit_env0 \<and>
   publishDraft edit_env0 props0 (editing long_text (Some (long_text, 1000)))
     = editing long_text (Some (long_text, 1000)) \<and>
   effects (publishDraft edit_env0 props0 (editing long_text (Some (long_text, 1000)))) = []"
proof -
  have h: "getCommentLength edit_env0 (draft (editing long_text (Some (long_text, 1000))))
     > MAX_COMMENT_LENGTH edit_env0"
    by (simp add: edit_env0_def editing_def long_text_def)
  have e: "effects (editing long_text (Some (long_text, 1000))) = []" by (simp add: editing_def)
  show ?thesis
    using h e publishDraft_too_long_is_blocked [OF h, of props0]
    by simp
qed




text \<open>
  Claim C5.  \<open>deleteDraft\<close> clears the draft under its owner key, dispatches no mutation,
  leaves the comment unchanged, shows and focuses the shared composer, and drops the
  waiting debounced write, which is not delivered however much time passes.
\<close>

theorem deleteDraft_discards_the_draft:
  "drafts (deleteDraft pr st) (reportID pr, reportActionID pr) = Some [] \<and>
   timer (deleteDraft pr st) = None \<and>
   draft_writes (effects (deleteDraft pr st))
     = draft_writes (effects st) @ [(reportID pr, reportActionID pr, [])] \<and>
   draft_writes (effects (advance pr t (deleteDraft pr st))) = draft_writes (effects (deleteDraft pr st)) \<and>
   drafts (advance pr t (deleteDraft pr st)) = drafts (deleteDraft pr st) \<and>
   mutations (effects (advance pr t (deleteDraft pr st))) = mutations (effects st) \<and>
   comments (advance pr t (deleteDraft pr st)) = comments st \<and>
   shouldShowComposeInput (deleteDraft pr st) \<and>
   composerFocused (deleteDraft pr st)"
  by (simp add: deleteDraft_def Let_def debouncedSaveDraft_cancel_def saveReportActionDraft_def
      setShouldShowComposeInput_def composeFocus_def emit_def advance_def
      draft_writes_append mutations_append)

theorem deleteDraft_discards_the_draft_witness:
  "drafts (advance props0 5000 (deleteDraft props0 (editing ''Hel'' (Some (''Hel'', 1000))))) (''1'', ''2'')
     = Some [] \<and>
   draft_writes (effects (advance props0 5000 (deleteDraft props0 (editing ''Hel'' (Some (''Hel'', 1000))))))
     = [(''1'', ''2'', [])] \<and>
   mutations (effects (advance props0 5000 (deleteDraft props0 (editing ''Hel'' (Some (''Hel'', 1000)))))) = [] \<and>
   comments (advance props0 5000 (deleteDraft props0 (editing ''Hel'' (Some (''Hel'', 1000))))) (Some ''1'', ''2'')
     = Some ''Hello'' \<and>
   shouldShowComposeInput (deleteDraft props0 (editing ''Hel'' (Some (''Hel'', 1000)))) \<and>
   composerFocused (deleteDraft props0 (editing ''Hel'' (Some (''Hel'', 1000))))"
  using deleteDraft_discards_the_draft [of props0 "editing ''Hel'' (Some (''Hel'', 1000))" 5000]
  by (simp add: editing_def props0_def)


section \<open>The temporary transaction\<close>















text \<open>
  A later render replaces the temporary copy by a new copy of the original, so an edit made
  before it is not in the new copy; when the new copy gets the name of the one before, the
  cleanup of the render before removes it, and the page is left without a temporary copy
  until it renders again.
\<close>

lemma rerender_makes_a_new_copy:
  "transactions (pstate (page_run page_props0 [Edit (JStr ''B''), Rerender ''temp2'']
       (mount ''temp'' page_props0 page_state0))) (Temporary ''temp2'')
     = Some \<lparr>transactionID = Some (Temporary ''temp2''), waypoints = JStr ''A''\<rparr> \<and>
   transactions (pstate (page_run page_props0 [Edit (JStr ''B''), Rerender ''temp2'']
       (mount ''temp'' page_props0 page_state0))) (Temporary ''temp'') = None \<and>
   transactions (pstate (page_run page_props0 [Edit (JStr ''B''), Rerender ''temp'']
       (mount ''temp'' page_props0 page_state0))) (Temporary ''temp'') = None"
  by (simp add: page_run_def mount_def render_def rerender_def createTemporaryTransaction_def
      removeTemporaryTransaction_def setDistanceRequestTransactionID_def DistanceRequest_edit_def
      transactionProp_def page_props0_def page_state0_def Let_def)

end
